theory Spec2Isabelle
  imports Main "HOL-Library.Word"
begin

section \<open>C data: characters, integers, pointers, memory\<close>

text \<open>
  The repository is two C functions, \<^verbatim>\<open>alsa_log_stub\<close> (src/alsalog.c) and
  \<^verbatim>\<open>ffmpeg_log_stub\<close> (src/fflog.c). Each formats a message into a local array
  \<^verbatim>\<open>char buf[1024]\<close> with \<^verbatim>\<open>vsnprintf\<close> and hands the array to an external
  backend together with the metadata it was given.

  A C \<^verbatim>\<open>char\<close> is a \<^typ>\<open>char\<close> (eight bits), an \<^verbatim>\<open>int\<close> a 32-bit word (read as two's
  complement by \<^const>\<open>sint\<close>), a pointer and a \<^verbatim>\<open>uintptr_t\<close> a 64-bit word (LP64).
  Memory is flat: one character at every address. The local array of a call lies just
  below the stack pointer, at the addresses \<open>sp - 1024 + i\<close> for \<open>i < 1024\<close>; what it
  holds on entry is whatever memory holds there (the array is not initialised).
\<close>

type_synonym c_int = "32 word"
type_synonym uintptr_t = "64 word"
type_synonym ptr = "64 word"
type_synonym memory = "ptr \<Rightarrow> char"

definition NUL :: char where
  "NUL = CHR 0x00"

text \<open>The \<open>n\<close> characters of the array that starts at \<open>p\<close>.\<close>

definition load_bytes :: "memory \<Rightarrow> ptr \<Rightarrow> nat \<Rightarrow> string" where
  "load_bytes m p n = map (\<lambda>i. m (p + of_nat i)) [0..<n]"


text \<open>
  The C string held by an array: the characters before the first null character. An array
  without a null character holds no string (reading it as one runs past its end).
\<close>

definition c_string :: "string \<Rightarrow> string option" where
  "c_string a = (if NUL \<in> set a then Some (takeWhile (\<lambda>c. c \<noteq> NUL) a) else None)"

text \<open>\<open>within s n p\<close>: the address \<open>p\<close> is one of the \<open>n\<close> addresses of the array at \<open>s\<close>.\<close>

definition within :: "ptr \<Rightarrow> nat \<Rightarrow> ptr \<Rightarrow> bool" where
  "within s n p = (unat (p - s) < n)"

section \<open>The C library's bounded formatting\<close>

text \<open>
  \<^verbatim>\<open>vsnprintf\<close> belongs to the C library, not to the repository. It is modelled after
  ISO C (7.21.6.5 and 7.21.6.12) in two parts.

  The conversion of the template and its arguments into the characters that unbounded
  formatting would produce is a parameter of the model, a \<open>formatter\<close>: it yields
  \<^item> \<open>None\<close> where C leaves the behaviour undefined (a directive without a matching
    argument, an unknown directive),
  \<^item> \<open>Converted cs\<close> when formatting succeeds with the characters \<open>cs\<close>,
  \<^item> \<open>Failed cs\<close> when an encoding error stops the conversion after the characters
    \<open>cs\<close>; \<^verbatim>\<open>vsnprintf\<close> then returns a negative value.
  The variable arguments (\<^verbatim>\<open>va_list\<close>) are the list of their values; a \<^verbatim>\<open>char *\<close>
  argument is the string it points to.

  The bounded store is the part that is fixed: output characters beyond the \<open>n - 1\<close>st
  are discarded rather than written, and a null character is written after the characters
  actually written, unless \<open>n\<close> is zero.

  The call has one effect besides the store: an encoding error stores the value of
  \<^verbatim>\<open>EILSEQ\<close> (84 on Linux) in the library's \<^verbatim>\<open>errno\<close> (ISO C 7.29.6.3.3, through which
  \<^verbatim>\<open>%ls\<close> converts). \<^verbatim>\<open>errno\<close> is not a part of memory here; the third component of the
  result of \<open>vsnprintf\<close> is the value the call stores there, if it stores one. A directive
  that stores through an argument (\<^verbatim>\<open>%n\<close>) and the position reached in the \<^verbatim>\<open>va_list\<close> are
  outside the model.
\<close>

datatype c_arg = Int_arg c_int | Str_arg string | Wstr_arg "32 word list"

datatype conversion = Converted string | Failed string

fun produced :: "conversion \<Rightarrow> string" where
  "produced (Converted cs) = cs"
| "produced (Failed cs) = cs"

text \<open>The value \<^verbatim>\<open>vsnprintf\<close> returns: the length of the whole output, or a negative value.\<close>

fun status :: "conversion \<Rightarrow> int" where
  "status (Converted cs) = int (length cs)"
| "status (Failed cs) = - 1"

definition EILSEQ :: c_int where
  "EILSEQ = 84"

fun errno_store :: "conversion \<Rightarrow> c_int option" where
  "errno_store (Converted cs) = None"
| "errno_store (Failed cs) = Some EILSEQ"

type_synonym formatter = "string \<Rightarrow> c_arg list \<Rightarrow> conversion option"

text \<open>The output loop: character number \<open>i\<close> is stored at \<open>s + i\<close> only while \<open>i + 1 < n\<close>.\<close>

fun put_chars :: "memory \<Rightarrow> ptr \<Rightarrow> nat \<Rightarrow> nat \<Rightarrow> string \<Rightarrow> memory" where
  "put_chars m s n i [] = m"
| "put_chars m s n i (c # cs) =
     put_chars (if i + 1 < n then m(s + of_nat i := c) else m) s n (i + 1) cs"

definition bounded_store :: "memory \<Rightarrow> ptr \<Rightarrow> nat \<Rightarrow> string \<Rightarrow> memory" where
  "bounded_store m s n cs =
     (let m1 = put_chars m s n 0 cs
      in if n = 0 then m1 else m1(s + of_nat (min (length cs) (n - 1)) := NUL))"

definition vsnprintf ::
  "formatter \<Rightarrow> memory \<Rightarrow> ptr \<Rightarrow> nat \<Rightarrow> string \<Rightarrow> c_arg list
     \<Rightarrow> (memory \<times> int \<times> c_int option) option" where
  "vsnprintf render m s n format arg =
     (case render format arg of
        None \<Rightarrow> None
      | Some r \<Rightarrow> Some (bounded_store m s n (produced r), status r, errno_store r))"

section \<open>A printf fragment\<close>

text \<open>
  One formatter, for concrete calls: literal characters and the directives
  \<^verbatim>\<open>%%\<close>, \<^verbatim>\<open>%d\<close>, \<^verbatim>\<open>%i\<close>, \<^verbatim>\<open>%u\<close>, \<^verbatim>\<open>%x\<close>, \<^verbatim>\<open>%c\<close>, \<^verbatim>\<open>%s\<close> and \<^verbatim>\<open>%ls\<close>, without flags,
  width or precision. The template ends at its first null character. Arguments beyond
  those the template uses are ignored, as in C; a directive outside the fragment, or one
  whose argument is missing or of the wrong kind, is \<open>None\<close>.

  \<^verbatim>\<open>%ls\<close> converts a wide string (\<^verbatim>\<open>wchar_t\<close> is 32 bits) character by character up to its
  null character. Only what no locale changes is in the fragment: a wide character below
  128 is that character, and one above \<open>0x7FFFFFFF\<close> is valid in no encoding, so that the
  conversion stops there with an encoding error. Any other wide character is \<open>None\<close>.
\<close>

fun prepend :: "string \<Rightarrow> conversion \<Rightarrow> conversion" where
  "prepend s (Converted cs) = Converted (s @ cs)"
| "prepend s (Failed cs) = Failed (s @ cs)"

fun wide_chars :: "32 word list \<Rightarrow> conversion option" where
  "wide_chars [] = Some (Converted [])"
| "wide_chars (wc # wcs) =
     (if wc = 0 then Some (Converted [])
      else if wc < 0x80 then map_option (prepend [char_of (unat wc)]) (wide_chars wcs)
      else if 0x7FFFFFFF < wc then Some (Failed [])
      else None)"

definition digit :: "nat \<Rightarrow> char" where
  "digit d = (if d < 16 then ''0123456789abcdef'' ! d else CHR ''?'')"

function show_nat :: "nat \<Rightarrow> nat \<Rightarrow> string" where
  "show_nat b n = (if b < 2 \<or> n < b then [digit n] else show_nat b (n div b) @ [digit (n mod b)])"
  by pat_completeness auto
termination
  by (relation "measure (\<lambda>(b, n). n)") auto

declare show_nat.simps [simp del]

definition show_int :: "int \<Rightarrow> string" where
  "show_int i = (if i < 0 then CHR ''-'' # show_nat 10 (nat (- i)) else show_nat 10 (nat i))"

fun directive :: "char \<Rightarrow> c_arg list \<Rightarrow> (string \<times> c_arg list) option" where
  "directive d args =
     (if d = CHR ''%'' then Some ([d], args)
      else case args of
        [] \<Rightarrow> None
      | Int_arg w # rest \<Rightarrow>
          if d = CHR ''d'' \<or> d = CHR ''i'' then Some (show_int (sint w), rest)
          else if d = CHR ''u'' then Some (show_nat 10 (unat w), rest)
          else if d = CHR ''x'' then Some (show_nat 16 (unat w), rest)
          else if d = CHR ''c'' then Some ([char_of (unat w)], rest)
          else None
      | Str_arg s # rest \<Rightarrow>
          if d = CHR ''s'' then Some (takeWhile (\<lambda>c. c \<noteq> NUL) s, rest) else None
      | Wstr_arg wcs # rest \<Rightarrow> None)"

fun printf_out :: "string \<Rightarrow> c_arg list \<Rightarrow> conversion option" where
  "printf_out [] args = Some (Converted [])"
| "printf_out (c # fs) args =
     (if c = NUL then Some (Converted [])
      else if c \<noteq> CHR ''%'' then map_option (prepend [c]) (printf_out fs args)
      else case fs of
        [] \<Rightarrow> None
      | d # fs' \<Rightarrow>
          if d = CHR ''l'' then
            (case fs' of
               [] \<Rightarrow> None
             | t # fs'' \<Rightarrow>
                 (case args of
                    Wstr_arg wcs # rest \<Rightarrow>
                      if t = CHR ''s'' then
                        (case wide_chars wcs of
                           None \<Rightarrow> None
                         | Some (Converted out) \<Rightarrow>
                             map_option (prepend out) (printf_out fs'' rest)
                         | Some (Failed out) \<Rightarrow> Some (Failed out))
                      else None
                  | _ \<Rightarrow> None))
          else
            (case directive d args of
               None \<Rightarrow> None
             | Some (out, rest) \<Rightarrow> map_option (prepend out) (printf_out fs' rest)))"

definition printf_render :: formatter where
  "printf_render format args = printf_out format args"

section \<open>The adapters\<close>

text \<open>
  The backends are external. A call to one is recorded in \<open>calls\<close>, with the arguments
  it received; in place of the message pointer the record holds the C string the backend
  finds there. A message array without a null character is the fault
  \<open>Unterminated_message\<close>. A template with undefined behaviour is the fault
  \<open>Undefined_format\<close>. Neither adapter returns a value (\<^verbatim>\<open>void\<close>): the result of the
  model is the world after the call. The array stays where it was written when the call
  returns (the frame is dead, its memory is not cleared), and the stack pointer is back
  where it was. What \<^verbatim>\<open>vsnprintf\<close> returns and what it stores in \<^verbatim>\<open>errno\<close> are dropped: the
  world holds memory, stack pointer and backend calls only.

  In \<^verbatim>\<open>alsa_log_stub\<close> the arguments after \<^verbatim>\<open>format\<close> (\<^verbatim>\<open>va_start\<close> to \<^verbatim>\<open>va_end\<close>) are the
  list \<open>arg\<close>. The cast \<^verbatim>\<open>(uintptr_t)ptr\<close> of \<^verbatim>\<open>ffmpeg_log_stub\<close> is \<^const>\<open>ucast\<close> between
  words of the same length.
\<close>

datatype call =
    Alsa_log_backend ptr c_int ptr c_int string
  | Ffmpeg_log_backend uintptr_t c_int string

record world =
  mem :: memory
  sp :: ptr
  calls :: "call list"

datatype fault = Undefined_format | Unterminated_message

definition alsa_log_backend ::
  "ptr \<Rightarrow> c_int \<Rightarrow> ptr \<Rightarrow> c_int \<Rightarrow> string \<Rightarrow> world \<Rightarrow> fault + world" where
  "alsa_log_backend file line function errno a w =
     (case c_string a of
        None \<Rightarrow> Inl Unterminated_message
      | Some msg \<Rightarrow> Inr (w\<lparr>calls := calls w @ [Alsa_log_backend file line function errno msg]\<rparr>))"

definition ffmpeg_log_backend :: "uintptr_t \<Rightarrow> c_int \<Rightarrow> string \<Rightarrow> world \<Rightarrow> fault + world" where
  "ffmpeg_log_backend handle level a w =
     (case c_string a of
        None \<Rightarrow> Inl Unterminated_message
      | Some msg \<Rightarrow> Inr (w\<lparr>calls := calls w @ [Ffmpeg_log_backend handle level msg]\<rparr>))"

text \<open>
  \<^verbatim>\<open>
  void alsa_log_stub(const char* file, int line, const char* function,
                     int errno, const char* format, ...) {
    char buf[1024];
    va_list arg;
    va_start(arg, format);
    vsnprintf(buf, sizeof(buf), format, arg);
    va_end(arg);
    alsa_log_backend(file, line, function, errno, buf);
  }
  \<close>
\<close>

definition alsa_log_stub ::
  "formatter \<Rightarrow> ptr \<Rightarrow> c_int \<Rightarrow> ptr \<Rightarrow> c_int \<Rightarrow> string \<Rightarrow> c_arg list \<Rightarrow> world \<Rightarrow> fault + world" where
  "alsa_log_stub render file line function errno format arg w =
     (let buf = sp w - 1024 in
      case vsnprintf render (mem w) buf 1024 format arg of
        None \<Rightarrow> Inl Undefined_format
      | Some (m, _) \<Rightarrow>
          alsa_log_backend file line function errno (load_bytes m buf 1024) (w\<lparr>mem := m\<rparr>))"

text \<open>
  \<^verbatim>\<open>
  void ffmpeg_log_stub(void* ptr, int level, const char* format, va_list arg) {
    char buf[1024];
    vsnprintf(buf, sizeof(buf), format, arg);
    ffmpeg_log_backend((uintptr_t)ptr, level, buf);
  }
  \<close>
\<close>

definition ffmpeg_log_stub ::
  "formatter \<Rightarrow> ptr \<Rightarrow> c_int \<Rightarrow> string \<Rightarrow> c_arg list \<Rightarrow> world \<Rightarrow> fault + world" where
  "ffmpeg_log_stub render ptr level format arg w =
     (let buf = sp w - 1024 in
      case vsnprintf render (mem w) buf 1024 format arg of
        None \<Rightarrow> Inl Undefined_format
      | Some (m, _) \<Rightarrow>
          ffmpeg_log_backend (ucast ptr) level (load_bytes m buf 1024) (w\<lparr>mem := m\<rparr>))"

section \<open>Addresses of an array\<close>

lemma unat_offset: "i < 2 ^ 64 \<Longrightarrow> unat ((s + of_nat i) - s :: 64 word) = i"
  by (simp add: unat_of_nat)

lemma offset_eq_iff:
  "i < 2 ^ 64 \<Longrightarrow> j < 2 ^ 64 \<Longrightarrow> ((s::64 word) + of_nat i = s + of_nat j) = (i = j)"
  by (metis unat_offset)

lemma within_offset: "i < 2 ^ 64 \<Longrightarrow> within s n (s + of_nat i) = (i < n)"
  using unat_offset [of i s] by (simp add: within_def)

lemma within_cases: "within s n p \<Longrightarrow> \<exists>i<n. p = s + of_nat i"
  unfolding within_def by (rule exI [of _ "unat (p - s)"]) simp

lemma put_chars_outside:
  "\<not> within s n p \<Longrightarrow> n \<le> 2 ^ 64 \<Longrightarrow> put_chars m s n i cs p = m p"
proof (induction cs arbitrary: m i)
  case Nil
  then show ?case by simp
next
  case (Cons c cs)
  have "p \<noteq> s + of_nat i" if "i + 1 < n"
    using that Cons.prems within_offset [of i s n] by auto
  with Cons show ?case by simp
qed

lemma put_chars_inside:
  "j < n \<Longrightarrow> n \<le> 2 ^ 64 \<Longrightarrow>
   put_chars m s n i cs (s + of_nat j) =
     (if i \<le> j \<and> j < i + length cs \<and> j + 1 < n then cs ! (j - i) else m (s + of_nat j))"
proof (induction cs arbitrary: m i)
  case Nil
  then show ?case by auto
next
  case (Cons c cs)
  let ?m = "if i + 1 < n then m(s + of_nat i := c) else m"
  have step: "?m (s + of_nat j) = (if i + 1 < n \<and> j = i then c else m (s + of_nat j))"
    using Cons.prems offset_eq_iff [of j i s] by auto
  have "put_chars m s n i (c # cs) (s + of_nat j) = put_chars ?m s n (i + 1) cs (s + of_nat j)"
    by simp
  also have "\<dots> = (if i + 1 \<le> j \<and> j < i + 1 + length cs \<and> j + 1 < n then cs ! (j - (i + 1))
                   else ?m (s + of_nat j))"
    using Cons.prems by (rule Cons.IH)
  also have "\<dots> = (if i \<le> j \<and> j < i + length (c # cs) \<and> j + 1 < n then (c # cs) ! (j - i)
                   else m (s + of_nat j))"
    unfolding step by (auto simp: nth_Cons' not_le)
  finally show ?case .
qed

section \<open>What the bounded store leaves in memory\<close>

lemma bounded_store_outside:
  "\<not> within s n p \<Longrightarrow> n \<le> 2 ^ 64 \<Longrightarrow> bounded_store m s n cs p = m p"
proof (cases "n = 0")
  case True
  assume "\<not> within s n p" "n \<le> 2 ^ 64"
  with True show ?thesis by (simp add: bounded_store_def put_chars_outside)
next
  case False
  assume out: "\<not> within s n p" and n: "n \<le> 2 ^ 64"
  let ?k = "min (length cs) (n - 1)"
  from False n have "?k < n" "?k < 2 ^ 64" by auto
  with out have "p \<noteq> s + of_nat ?k"
    using within_offset [of ?k s n] by auto
  with False out n show ?thesis
    by (simp add: bounded_store_def Let_def put_chars_outside)
qed

lemma bounded_store_inside:
  assumes "j < n" and "n \<le> 2 ^ 64"
  shows "bounded_store m s n cs (s + of_nat j) =
           (if j < min (length cs) (n - 1) then cs ! j
            else if j = min (length cs) (n - 1) then NUL
            else m (s + of_nat j))"
proof -
  let ?k = "min (length cs) (n - 1)"
  from assms have k: "?k < 2 ^ 64" and j: "j < 2 ^ 64" by auto
  have eq: "(s + of_nat j = s + of_nat ?k) = (j = ?k)"
    using j k by (rule offset_eq_iff)
  have "put_chars m s n 0 cs (s + of_nat j) =
          (if j < length cs \<and> j + 1 < n then cs ! j else m (s + of_nat j))"
    using put_chars_inside [OF assms, of m s 0 cs] by simp
  with assms eq show ?thesis
    by (auto simp: bounded_store_def Let_def)
qed

lemma length_load_bytes [simp]: "length (load_bytes m p n) = n"
  by (simp add: load_bytes_def)

lemma nth_load_bytes [simp]: "i < n \<Longrightarrow> load_bytes m p n ! i = m (p + of_nat i)"
  by (simp add: load_bytes_def)

lemma load_bytes_take: "k \<le> n \<Longrightarrow> load_bytes m p k = take k (load_bytes m p n)"
  by (rule nth_equalityI) simp_all

lemma load_bytes_bounded_store:
  assumes "0 < n" and "n \<le> 2 ^ 64"
  shows "load_bytes (bounded_store m s n cs) s n =
           take (n - 1) cs @ NUL # drop (Suc (min (length cs) (n - 1))) (load_bytes m s n)"
proof (rule nth_equalityI)
  show "length (load_bytes (bounded_store m s n cs) s n) =
          length (take (n - 1) cs @ NUL # drop (Suc (min (length cs) (n - 1))) (load_bytes m s n))"
    using assms by auto
next
  fix j
  assume "j < length (load_bytes (bounded_store m s n cs) s n)"
  then have j: "j < n" by simp
  let ?k = "min (length cs) (n - 1)"
  have len: "length (take (n - 1) cs) = ?k" by simp
  consider "j < ?k" | "j = ?k" | "?k < j" by linarith
  then show "load_bytes (bounded_store m s n cs) s n ! j =
          (take (n - 1) cs @ NUL # drop (Suc ?k) (load_bytes m s n)) ! j"
  proof cases
    case 1
    with j assms show ?thesis
      by (simp add: bounded_store_inside nth_append)
  next
    case 2
    with j assms show ?thesis
      by (simp add: bounded_store_inside nth_append)
  next
    case 3
    then have "\<not> j < length (take (n - 1) cs)" and "j - length (take (n - 1) cs) \<noteq> 0"
      and "j - length (take (n - 1) cs) - 1 = j - Suc ?k"
      unfolding len by arith+
    then have "(take (n - 1) cs @ NUL # drop (Suc ?k) (load_bytes m s n)) ! j
                 = drop (Suc ?k) (load_bytes m s n) ! (j - Suc ?k)"
      by (simp only: nth_append nth_Cons' if_False)
    also have "\<dots> = m (s + of_nat j)"
      using 3 j by simp
    finally show ?thesis
      using 3 j assms by (auto simp: bounded_store_inside)
  qed
qed

lemma c_string_terminated:
  "c_string (xs @ NUL # ys) = Some (takeWhile (\<lambda>c. c \<noteq> NUL) xs)"
  by (simp add: c_string_def takeWhile_tail)

lemma bounded_store_take:
  assumes "n \<le> 2 ^ 64"
  shows "bounded_store m s n (take (n - 1) cs) = bounded_store m s n cs"
proof
  fix p
  show "bounded_store m s n (take (n - 1) cs) p = bounded_store m s n cs p"
  proof (cases "within s n p")
    case False
    with assms show ?thesis by (simp add: bounded_store_outside)
  next
    case True
    then obtain j where "j < n" "p = s + of_nat j"
      using within_cases by blast
    with assms show ?thesis by (auto simp: bounded_store_inside min_def)
  qed
qed

section \<open>What an adapter call does\<close>

lemma vsnprintf_undefined:
  "render format arg = None \<Longrightarrow> vsnprintf render m s n format arg = None"
  by (simp add: vsnprintf_def)

lemma load_bytes_buf:
  "load_bytes (bounded_store m s 1024 cs) s 1024 =
     take 1023 cs @ NUL # drop (Suc (min (length cs) 1023)) (load_bytes m s 1024)"
  using load_bytes_bounded_store [of 1024 m s cs] by simp

lemma c_string_buf:
  "c_string (load_bytes (bounded_store m s 1024 cs) s 1024) =
     Some (takeWhile (\<lambda>c. c \<noteq> NUL) (take 1023 cs))"
  by (simp only: load_bytes_buf c_string_terminated)

lemma take_Suc_append_Cons: "length xs = k \<Longrightarrow> take (Suc k) (xs @ y # ys) = xs @ [y]"
  by simp

lemma load_bytes_buf_prefix:
  "load_bytes (bounded_store m s 1024 cs) s (Suc (min (length cs) 1023)) = take 1023 cs @ [NUL]"
proof -
  have "load_bytes (bounded_store m s 1024 cs) s (Suc (min (length cs) 1023)) =
          take (Suc (min (length cs) 1023)) (load_bytes (bounded_store m s 1024 cs) s 1024)"
    by (rule load_bytes_take) simp
  also have "\<dots> = take 1023 cs @ [NUL]"
    unfolding load_bytes_buf by (rule take_Suc_append_Cons) simp
  finally show ?thesis .
qed

lemma buf_outside:
  "\<not> within s 1024 p \<Longrightarrow> bounded_store m s 1024 cs p = m p"
  by (rule bounded_store_outside) simp_all

lemma alsa_log_stub_defined:
  assumes "render format arg = Some r"
  shows "alsa_log_stub render file line function errno format arg w =
           Inr (w\<lparr>mem := bounded_store (mem w) (sp w - 1024) 1024 (produced r),
                  calls := calls w @ [Alsa_log_backend file line function errno
                                        (takeWhile (\<lambda>c. c \<noteq> NUL) (take 1023 (produced r)))]\<rparr>)"
  using assms
  by (simp add: alsa_log_stub_def alsa_log_backend_def vsnprintf_def c_string_buf)

lemma ffmpeg_log_stub_defined:
  assumes "render format arg = Some r"
  shows "ffmpeg_log_stub render p level format arg w =
           Inr (w\<lparr>mem := bounded_store (mem w) (sp w - 1024) 1024 (produced r),
                  calls := calls w @ [Ffmpeg_log_backend p level
                                        (takeWhile (\<lambda>c. c \<noteq> NUL) (take 1023 (produced r)))]\<rparr>)"
  using assms
  by (simp add: ffmpeg_log_stub_def ffmpeg_log_backend_def vsnprintf_def c_string_buf)

lemma alsa_log_stub_undefined:
  "render format arg = None \<Longrightarrow>
   alsa_log_stub render file line function errno format arg w = Inl Undefined_format"
  by (simp add: alsa_log_stub_def vsnprintf_undefined)

lemma ffmpeg_log_stub_undefined:
  "render format arg = None \<Longrightarrow>
   ffmpeg_log_stub render p level format arg w = Inl Undefined_format"
  by (simp add: ffmpeg_log_stub_def vsnprintf_undefined)

lemma alsa_log_stub_returns:
  "alsa_log_stub render file line function errno format arg w = Inr w' \<Longrightarrow>
   \<exists>r. render format arg = Some r"
  by (cases "render format arg") (simp_all add: alsa_log_stub_undefined)

lemma ffmpeg_log_stub_returns:
  "ffmpeg_log_stub render p level format arg w = Inr w' \<Longrightarrow> \<exists>r. render format arg = Some r"
  by (cases "render format arg") (simp_all add: ffmpeg_log_stub_undefined)

lemma printf_out_literal:
  "CHR ''%'' \<notin> set fs \<Longrightarrow> NUL \<notin> set fs \<Longrightarrow> printf_out fs args = Some (Converted fs)"
  by (induction fs) auto

lemma printf_render_literal:
  "CHR ''%'' \<notin> set fs \<Longrightarrow> NUL \<notin> set fs \<Longrightarrow> printf_render fs args = Some (Converted fs)"
  by (simp add: printf_render_def printf_out_literal)

lemma takeWhile_no_NUL: "NUL \<notin> set cs \<Longrightarrow> takeWhile (\<lambda>c. c \<noteq> NUL) cs = cs"
  by (rule takeWhile_eq_all_conv [THEN iffD2]) auto

lemma load_bytes_buf_short:
  assumes "k = Suc (length cs)" and "length cs \<le> 1023"
  shows "load_bytes (bounded_store m s 1024 cs) s k = cs @ [NUL]"
  using load_bytes_buf_prefix [of m s cs] assms by (simp add: min_absorb1)

section \<open>The claims\<close>

text \<open>
  In every statement below \<open>render\<close> is any formatter: the statements hold for the whole
  of \<^verbatim>\<open>printf\<close>, not only for the fragment above. The hypothesis
  \<open>render format arg = Some r\<close> says that the call has defined behaviour, the arguments
  matching the template.
\<close>

text \<open>
  C1. When the unbounded output \<open>out\<close> has at most 1023 characters, both adapters pass it
  to the backend whole: the array holds \<open>out\<close> followed by a null character, and the string
  the backend reads there is \<open>out\<close> (as a C string: up to its first null character, should
  a \<^verbatim>\<open>%c\<close> have produced one).
\<close>

theorem short_output_exact:
  assumes "render format arg = Some (Converted out)" and "length out \<le> 1023"
  shows "(\<exists>w'. alsa_log_stub render file line function errno format arg w = Inr w'
            \<and> calls w' = calls w @ [Alsa_log_backend file line function errno
                                      (takeWhile (\<lambda>c. c \<noteq> NUL) out)]
            \<and> load_bytes (mem w') (sp w - 1024) (Suc (length out)) = out @ [NUL])
       \<and> (\<exists>w'. ffmpeg_log_stub render p level format arg w = Inr w'
            \<and> calls w' = calls w @ [Ffmpeg_log_backend p level (takeWhile (\<lambda>c. c \<noteq> NUL) out)]
            \<and> load_bytes (mem w') (sp w - 1024) (Suc (length out)) = out @ [NUL])"
proof -
  from assms(2)
  have buf: "load_bytes (bounded_store (mem w) (sp w - 1024) 1024 out) (sp w - 1024)
          (Suc (length out)) = out @ [NUL]"
    by (intro load_bytes_buf_short refl)
  from assms buf show ?thesis
    by (simp add: alsa_log_stub_defined [where r = "Converted out"]
        ffmpeg_log_stub_defined [where r = "Converted out"])
qed

text \<open>The theorem at the template \<^verbatim>\<open>status %s\<close> with the argument \<^verbatim>\<open>ok\<close>.\<close>

theorem short_output_exact_witness:
  "printf_render ''status %s'' [Str_arg ''ok''] = Some (Converted ''status ok'')
   \<and> length ''status ok'' \<le> 1023
   \<and> (\<exists>w'. alsa_log_stub printf_render 1 2 3 4 ''status %s'' [Str_arg ''ok'']
              \<lparr>mem = (\<lambda>_. CHR ''?''), sp = 0x7FFC00000000, calls = []\<rparr> = Inr w'
         \<and> calls w' = [Alsa_log_backend 1 2 3 4 ''status ok''])
   \<and> (\<exists>w'. ffmpeg_log_stub printf_render 5 6 ''status %s'' [Str_arg ''ok'']
              \<lparr>mem = (\<lambda>_. CHR ''?''), sp = 0x7FFC00000000, calls = []\<rparr> = Inr w'
         \<and> calls w' = [Ffmpeg_log_backend 5 6 ''status ok''])"
proof -
  have h1: "printf_render ''status %s'' [Str_arg ''ok''] = Some (Converted ''status ok'')"
    by (simp add: printf_render_def NUL_def)
  have h2: "length ''status ok'' \<le> 1023"
    by simp
  have "takeWhile (\<lambda>c. c \<noteq> NUL) ''status ok'' = ''status ok''"
    by (simp add: NUL_def)
  with h1 h2
    short_output_exact [of printf_render "''status %s''" "[Str_arg ''ok'']" "''status ok''"
      1 2 3 4 "\<lparr>mem = (\<lambda>_. CHR ''?''), sp = 0x7FFC00000000, calls = []\<rparr>" 5 6, OF h1 h2]
  show ?thesis
    by auto
qed

text \<open>
  C8. The template \<^verbatim>\<open>%d items\<close> with the argument 5: \<^verbatim>\<open>alsa_log_stub\<close> renders
  \<^verbatim>\<open>5 items\<close>, and the backend receives the file, the line, the function and the error
  number as they were given, with that message.
\<close>

theorem five_items:
  "\<exists>w'. alsa_log_stub printf_render file line function errno ''%d items'' [Int_arg 5] w = Inr w'
       \<and> calls w' = calls w @ [Alsa_log_backend file line function errno ''5 items'']
       \<and> load_bytes (mem w') (sp w - 1024) 8 = ''5 items'' @ [NUL]"
proof -
  have r: "printf_render ''%d items'' [Int_arg 5] = Some (Converted ''5 items'')"
    by (simp add: printf_render_def show_int_def show_nat.simps digit_def NUL_def)
  have "load_bytes (bounded_store (mem w) (sp w - 1024) 1024 ''5 items'') (sp w - 1024) 8
          = ''5 items'' @ [NUL]"
    by (rule load_bytes_buf_short) simp_all
  with r show ?thesis
    by (simp add: alsa_log_stub_defined [where r = "Converted ''5 items''"] NUL_def)
qed

text \<open>
  C2. When the unbounded output \<open>out\<close> has more than 1023 characters, both adapters leave in
  the array exactly the first 1023 characters of \<open>out\<close> followed by a null character, the
  backend reads those characters (as a C string), and no address outside the 1024 of the
  array is written. In particular a literal of 2000 characters without a directive (none
  of them null, as in any C string) reaches the backend of \<^verbatim>\<open>ffmpeg_log_stub\<close> as its
  first 1023 characters.
\<close>

theorem long_output_truncated:
  assumes "render format arg = Some (Converted out)" and "1023 < length out"
  shows "(\<exists>w'. alsa_log_stub render file line function errno format arg w = Inr w'
            \<and> calls w' = calls w @ [Alsa_log_backend file line function errno
                                      (takeWhile (\<lambda>c. c \<noteq> NUL) (take 1023 out))]
            \<and> load_bytes (mem w') (sp w - 1024) 1024 = take 1023 out @ [NUL]
            \<and> (\<forall>q. \<not> within (sp w - 1024) 1024 q \<longrightarrow> mem w' q = mem w q))
       \<and> (\<exists>w'. ffmpeg_log_stub render p level format arg w = Inr w'
            \<and> calls w' = calls w @ [Ffmpeg_log_backend p level
                                      (takeWhile (\<lambda>c. c \<noteq> NUL) (take 1023 out))]
            \<and> load_bytes (mem w') (sp w - 1024) 1024 = take 1023 out @ [NUL]
            \<and> (\<forall>q. \<not> within (sp w - 1024) 1024 q \<longrightarrow> mem w' q = mem w q))
       \<and> (length literal = 2000 \<and> CHR ''%'' \<notin> set literal \<and> NUL \<notin> set literal \<longrightarrow>
           (\<exists>w'. ffmpeg_log_stub printf_render p level literal arg w = Inr w'
              \<and> calls w' = calls w @ [Ffmpeg_log_backend p level (take 1023 literal)]
              \<and> load_bytes (mem w') (sp w - 1024) 1024 = take 1023 literal @ [NUL]))"
proof -
  have full: "load_bytes (bounded_store (mem w) (sp w - 1024) 1024 cs) (sp w - 1024) 1024
                = take 1023 cs @ [NUL]" if "1023 < length cs" for cs
    using that by (simp add: load_bytes_buf min_absorb2)
  have particular:
    "\<exists>w'. ffmpeg_log_stub printf_render p level literal arg w = Inr w'
        \<and> calls w' = calls w @ [Ffmpeg_log_backend p level (take 1023 literal)]
        \<and> load_bytes (mem w') (sp w - 1024) 1024 = take 1023 literal @ [NUL]"
    if len: "length literal = 2000" and pc: "CHR ''%'' \<notin> set literal" and nul: "NUL \<notin> set literal"
  proof -
    have r: "printf_render literal arg = Some (Converted literal)"
      using pc nul by (rule printf_render_literal)
    have "NUL \<notin> set (take 1023 literal)"
      using nul by (auto dest: in_set_takeD)
    then have "takeWhile (\<lambda>c. c \<noteq> NUL) (take 1023 literal) = take 1023 literal"
      by (rule takeWhile_no_NUL)
    with r len full [of literal] show ?thesis
      by (simp add: ffmpeg_log_stub_defined [where r = "Converted literal"])
  qed
  from assms full [of out]
  have "(\<exists>w'. alsa_log_stub render file line function errno format arg w = Inr w'
          \<and> calls w' = calls w @ [Alsa_log_backend file line function errno
                                    (takeWhile (\<lambda>c. c \<noteq> NUL) (take 1023 out))]
          \<and> load_bytes (mem w') (sp w - 1024) 1024 = take 1023 out @ [NUL]
          \<and> (\<forall>q. \<not> within (sp w - 1024) 1024 q \<longrightarrow> mem w' q = mem w q))"
    by (simp add: alsa_log_stub_defined [where r = "Converted out"] buf_outside)
  moreover from assms full [of out]
  have "(\<exists>w'. ffmpeg_log_stub render p level format arg w = Inr w'
          \<and> calls w' = calls w @ [Ffmpeg_log_backend p level
                                    (takeWhile (\<lambda>c. c \<noteq> NUL) (take 1023 out))]
          \<and> load_bytes (mem w') (sp w - 1024) 1024 = take 1023 out @ [NUL]
          \<and> (\<forall>q. \<not> within (sp w - 1024) 1024 q \<longrightarrow> mem w' q = mem w q))"
    by (simp add: ffmpeg_log_stub_defined [where r = "Converted out"] buf_outside)
  ultimately show ?thesis
    using particular by blast
qed

text \<open>The theorem at a literal of 1024 characters, at the address just above the array, and at a literal of 2000 characters.\<close>

theorem long_output_truncated_witness:
  "printf_render (replicate 1024 CHR ''x'') [] = Some (Converted (replicate 1024 CHR ''x''))
   \<and> 1023 < length (replicate 1024 CHR ''x'')
   \<and> \<not> within (0x7FFC00000000 - 1024) 1024 0x7FFC00000000
   \<and> (\<exists>w'. alsa_log_stub printf_render 1 2 3 4 (replicate 1024 CHR ''x'') []
              \<lparr>mem = (\<lambda>_. CHR ''?''), sp = 0x7FFC00000000, calls = []\<rparr> = Inr w'
         \<and> calls w' = [Alsa_log_backend 1 2 3 4 (replicate 1023 CHR ''x'')]
         \<and> mem w' 0x7FFC00000000 = CHR ''?'')
   \<and> length (replicate 2000 CHR ''a'') = 2000
   \<and> CHR ''%'' \<notin> set (replicate 2000 CHR ''a'')
   \<and> NUL \<notin> set (replicate 2000 CHR ''a'')
   \<and> (\<exists>w'. ffmpeg_log_stub printf_render 5 6 (replicate 2000 CHR ''a'') []
              \<lparr>mem = (\<lambda>_. CHR ''?''), sp = 0x7FFC00000000, calls = []\<rparr> = Inr w'
         \<and> calls w' = [Ffmpeg_log_backend 5 6 (replicate 1023 CHR ''a'')])"
proof -
  let ?W = "\<lparr>mem = (\<lambda>_. CHR ''?''), sp = 0x7FFC00000000, calls = []\<rparr>"
  have h1: "printf_render (replicate 1024 CHR ''x'') [] = Some (Converted (replicate 1024 CHR ''x''))"
    by (rule printf_render_literal) (simp_all add: NUL_def)
  have h2: "1023 < length (replicate 1024 CHR ''x'')"
    by simp
  have h3: "\<not> within (0x7FFC00000000 - 1024) 1024 0x7FFC00000000"
    by (simp add: within_def)
  have l: "length (replicate 2000 CHR ''a'') = 2000 \<and> CHR ''%'' \<notin> set (replicate 2000 CHR ''a'')
             \<and> NUL \<notin> set (replicate 2000 CHR ''a'')"
    by (simp add: NUL_def)
  note inst = long_output_truncated [of printf_render "replicate 1024 CHR ''x''" "[]"
      "replicate 1024 CHR ''x''" 1 2 3 4 ?W 5 6 "replicate 2000 CHR ''a''", OF h1 h2]
  from inst h3
  have a: "\<exists>w'. alsa_log_stub printf_render 1 2 3 4 (replicate 1024 CHR ''x'') [] ?W = Inr w'
         \<and> calls w' = [Alsa_log_backend 1 2 3 4 (replicate 1023 CHR ''x'')]
         \<and> mem w' 0x7FFC00000000 = CHR ''?''"
    by (auto simp: NUL_def)
  from inst l
  have b: "\<exists>w'. ffmpeg_log_stub printf_render 5 6 (replicate 2000 CHR ''a'') [] ?W = Inr w'
         \<and> calls w' = [Ffmpeg_log_backend 5 6 (replicate 1023 CHR ''a'')]"
    by auto
  from h1 h2 h3 l a b show ?thesis
    by blast
qed

lemma length_c_message: "length (takeWhile (\<lambda>c. c \<noteq> NUL) (take 1023 cs)) \<le> 1023"
proof -
  have "length (takeWhile (\<lambda>c. c \<noteq> NUL) (take 1023 cs)) \<le> length (take 1023 cs)"
    by (rule length_takeWhile_le)
  then show ?thesis by simp
qed

text \<open>
  C3. For every call with defined behaviour, whatever the length of the output: the array
  of 1024 characters holds a null character, the message the backend reads there has at
  most 1023 characters, it is the longest prefix of the output that fits (the first
  \<open>min (length out) 1023\<close> characters, followed by the null character), and no address
  outside the array is written. Characters are C characters, that is bytes.
\<close>

theorem rendered_message_bounded:
  assumes "render format arg = Some r"
  shows "(\<exists>w' msg. alsa_log_stub render file line function errno format arg w = Inr w'
            \<and> calls w' = calls w @ [Alsa_log_backend file line function errno msg]
            \<and> c_string (load_bytes (mem w') (sp w - 1024) 1024) = Some msg
            \<and> length msg \<le> 1023
            \<and> load_bytes (mem w') (sp w - 1024) (Suc (min (length (produced r)) 1023))
                = take 1023 (produced r) @ [NUL]
            \<and> (\<forall>q. \<not> within (sp w - 1024) 1024 q \<longrightarrow> mem w' q = mem w q))
       \<and> (\<exists>w' msg. ffmpeg_log_stub render p level format arg w = Inr w'
            \<and> calls w' = calls w @ [Ffmpeg_log_backend p level msg]
            \<and> c_string (load_bytes (mem w') (sp w - 1024) 1024) = Some msg
            \<and> length msg \<le> 1023
            \<and> load_bytes (mem w') (sp w - 1024) (Suc (min (length (produced r)) 1023))
                = take 1023 (produced r) @ [NUL]
            \<and> (\<forall>q. \<not> within (sp w - 1024) 1024 q \<longrightarrow> mem w' q = mem w q))"
  using assms
  by (simp add: alsa_log_stub_defined [where r = r] ffmpeg_log_stub_defined [where r = r]
      c_string_buf length_c_message load_bytes_buf_prefix buf_outside)

text \<open>The theorem at a literal of 3000 characters and at the address just below the array.\<close>

theorem rendered_message_bounded_witness:
  "printf_render (replicate 3000 CHR ''y'') [] = Some (Converted (replicate 3000 CHR ''y''))
   \<and> \<not> within (0x7FFC00000000 - 1024) 1024 (0x7FFC00000000 - 1025)
   \<and> (\<exists>w' msg. alsa_log_stub printf_render 1 2 3 4 (replicate 3000 CHR ''y'') []
              \<lparr>mem = (\<lambda>_. CHR ''?''), sp = 0x7FFC00000000, calls = []\<rparr> = Inr w'
         \<and> calls w' = [Alsa_log_backend 1 2 3 4 msg]
         \<and> length msg \<le> 1023
         \<and> mem w' (0x7FFC00000000 - 1025) = CHR ''?'')
   \<and> (\<exists>w' msg. ffmpeg_log_stub printf_render 5 6 (replicate 3000 CHR ''y'') []
              \<lparr>mem = (\<lambda>_. CHR ''?''), sp = 0x7FFC00000000, calls = []\<rparr> = Inr w'
         \<and> calls w' = [Ffmpeg_log_backend 5 6 msg]
         \<and> length msg \<le> 1023
         \<and> mem w' (0x7FFC00000000 - 1025) = CHR ''?'')"
proof -
  let ?W = "\<lparr>mem = (\<lambda>_. CHR ''?''), sp = 0x7FFC00000000, calls = []\<rparr>"
  have h1: "printf_render (replicate 3000 CHR ''y'') [] = Some (Converted (replicate 3000 CHR ''y''))"
    by (rule printf_render_literal) (simp_all add: NUL_def)
  have h2: "\<not> within (0x7FFC00000000 - 1024) 1024 (0x7FFC00000000 - 1025)"
    by (simp add: within_def unsigned_minus_1_eq_mask mask_eq_exp_minus_1)
  note inst = rendered_message_bounded [of printf_render "replicate 3000 CHR ''y''" "[]"
      "Converted (replicate 3000 CHR ''y'')" 1 2 3 4 ?W 5 6, OF h1]
  from inst h2
  have a: "\<exists>w' msg. alsa_log_stub printf_render 1 2 3 4 (replicate 3000 CHR ''y'') [] ?W = Inr w'
         \<and> calls w' = [Alsa_log_backend 1 2 3 4 msg] \<and> length msg \<le> 1023
         \<and> mem w' (0x7FFC00000000 - 1025) = CHR ''?''"
    by auto
  from inst h2
  have b: "\<exists>w' msg. ffmpeg_log_stub printf_render 5 6 (replicate 3000 CHR ''y'') [] ?W = Inr w'
         \<and> calls w' = [Ffmpeg_log_backend 5 6 msg] \<and> length msg \<le> 1023
         \<and> mem w' (0x7FFC00000000 - 1025) = CHR ''?''"
    by auto
  from h1 h2 a b show ?thesis
    by blast
qed

text \<open>
  C4. For every call with defined behaviour the backend is called exactly once (the record
  of calls grows by one entry), and the entry carries the metadata as given: file, line,
  function and error number for \<^verbatim>\<open>alsa_log_stub\<close>, handle and level for
  \<^verbatim>\<open>ffmpeg_log_stub\<close>.
\<close>

theorem forwarded_once_unchanged:
  assumes "render format arg = Some r"
  shows "(\<exists>w' msg. alsa_log_stub render file line function errno format arg w = Inr w'
            \<and> calls w' = calls w @ [Alsa_log_backend file line function errno msg])
       \<and> (\<exists>w' msg. ffmpeg_log_stub render p level format arg w = Inr w'
            \<and> calls w' = calls w @ [Ffmpeg_log_backend p level msg])"
  using assms
  by (simp add: alsa_log_stub_defined [where r = r] ffmpeg_log_stub_defined [where r = r])

text \<open>The theorem at an ALSA-style message with two arguments, after an earlier call.\<close>

theorem forwarded_once_unchanged_witness:
  "printf_render ''xrun of at least %u.%u msecs'' [Int_arg 12, Int_arg 7]
     = Some (Converted ''xrun of at least 12.7 msecs'')
   \<and> (\<exists>w' msg. alsa_log_stub printf_render 0x401000 861 0x401020 (- 32)
              ''xrun of at least %u.%u msecs'' [Int_arg 12, Int_arg 7]
              \<lparr>mem = (\<lambda>_. CHR ''?''), sp = 0x7FFC00000000,
                calls = [Ffmpeg_log_backend 9 16 ''earlier'']\<rparr> = Inr w'
         \<and> calls w' = [Ffmpeg_log_backend 9 16 ''earlier'',
                        Alsa_log_backend 0x401000 861 0x401020 (- 32) msg])
   \<and> (\<exists>w' msg. ffmpeg_log_stub printf_render 0x55D0C0DE 24
              ''xrun of at least %u.%u msecs'' [Int_arg 12, Int_arg 7]
              \<lparr>mem = (\<lambda>_. CHR ''?''), sp = 0x7FFC00000000,
                calls = [Ffmpeg_log_backend 9 16 ''earlier'']\<rparr> = Inr w'
         \<and> calls w' = [Ffmpeg_log_backend 9 16 ''earlier'',
                        Ffmpeg_log_backend 0x55D0C0DE 24 msg])"
proof -
  have h: "printf_render ''xrun of at least %u.%u msecs'' [Int_arg 12, Int_arg 7]
             = Some (Converted ''xrun of at least 12.7 msecs'')"
    by (simp add: printf_render_def show_nat.simps digit_def NUL_def)
  from forwarded_once_unchanged [of printf_render "''xrun of at least %u.%u msecs''"
      "[Int_arg 12, Int_arg 7]" "Converted ''xrun of at least 12.7 msecs''"
      "0x401000" 861 "0x401020" "- 32"
      "\<lparr>mem = (\<lambda>_. CHR ''?''), sp = 0x7FFC00000000, calls = [Ffmpeg_log_backend 9 16 ''earlier'']\<rparr>"
      "0x55D0C0DE" 24, OF h] h
  show ?thesis
    by simp
qed

text \<open>
  C5. \<^verbatim>\<open>ffmpeg_log_stub\<close> passes the handle on as a number and never looks at what it
  points to: for every memory \<open>m\<close> the recorded call is the same, with the handle as
  given, and the character at the handle's address is left as it was (unless the handle
  points into the adapter's own array). A null handle is passed on as 0, and the call
  returns.
\<close>

theorem handle_passed_as_token:
  assumes "render format arg = Some r"
  shows "(\<exists>w'. ffmpeg_log_stub render p level format arg (w\<lparr>mem := m\<rparr>) = Inr w'
            \<and> calls w' = calls w @ [Ffmpeg_log_backend p level
                                      (takeWhile (\<lambda>c. c \<noteq> NUL) (take 1023 (produced r)))]
            \<and> (\<not> within (sp w - 1024) 1024 p \<longrightarrow> mem w' p = m p))
       \<and> (\<exists>w'. ffmpeg_log_stub render 0 level format arg w = Inr w'
            \<and> calls w' = calls w @ [Ffmpeg_log_backend 0 level
                                      (takeWhile (\<lambda>c. c \<noteq> NUL) (take 1023 (produced r)))])"
  using assms
  by (simp add: ffmpeg_log_stub_defined [where r = r] buf_outside)

text \<open>The theorem at a heap address as handle, with memory replaced as a whole, and at the null handle.\<close>

theorem handle_passed_as_token_witness:
  "printf_render ''Opening %s for reading'' [Str_arg ''a.flac'']
     = Some (Converted ''Opening a.flac for reading'')
   \<and> \<not> within (0x7FFC00000000 - 1024) 1024 0x55D0C0DE
   \<and> (\<exists>w'. ffmpeg_log_stub printf_render 0x55D0C0DE 32 ''Opening %s for reading''
              [Str_arg ''a.flac'']
              (\<lparr>mem = (\<lambda>_. CHR ''?''), sp = 0x7FFC00000000, calls = []\<rparr>\<lparr>mem := (\<lambda>_. CHR ''!'')\<rparr>)
            = Inr w'
         \<and> calls w' = [Ffmpeg_log_backend 0x55D0C0DE 32 ''Opening a.flac for reading'']
         \<and> mem w' 0x55D0C0DE = CHR ''!'')
   \<and> (\<exists>w'. ffmpeg_log_stub printf_render 0 32 ''Opening %s for reading'' [Str_arg ''a.flac'']
              \<lparr>mem = (\<lambda>_. CHR ''?''), sp = 0x7FFC00000000, calls = []\<rparr> = Inr w'
         \<and> calls w' = [Ffmpeg_log_backend 0 32 ''Opening a.flac for reading''])"
proof -
  have h1: "printf_render ''Opening %s for reading'' [Str_arg ''a.flac'']
              = Some (Converted ''Opening a.flac for reading'')"
    by (simp add: printf_render_def NUL_def)
  have h2: "\<not> within (0x7FFC00000000 - 1024) 1024 0x55D0C0DE"
    by (simp add: within_def)
  have msg: "takeWhile (\<lambda>c. c \<noteq> NUL) (take 1023 ''Opening a.flac for reading'')
               = ''Opening a.flac for reading''"
    by (simp add: NUL_def)
  from handle_passed_as_token [of printf_render "''Opening %s for reading''"
      "[Str_arg ''a.flac'']" "Converted ''Opening a.flac for reading''" "0x55D0C0DE" 32
      "\<lambda>_. CHR ''!''" "\<lparr>mem = (\<lambda>_. CHR ''?''), sp = 0x7FFC00000000, calls = []\<rparr>", OF h1]
    h1 h2 msg
  show ?thesis
    by simp
qed

text \<open>
  C6. For every call with defined behaviour, failed conversion included, each adapter
  returns, having called its backend once with a bounded string: the message is the
  longest prefix of the characters produced that fits in 1023, it is the C string the array
  holds (so the array is terminated), and the earlier calls stay. The value \<^verbatim>\<open>vsnprintf\<close>
  returns is dropped: a conversion that fails after some characters has the same result as
  a successful one producing those characters. The adapters return nothing, and nothing
  the backend does is looked at.
\<close>

theorem no_error_reported:
  assumes "render format arg = Some r"
  shows "(\<exists>w' msg. alsa_log_stub render file line function errno format arg w = Inr w'
            \<and> calls w' = calls w @ [Alsa_log_backend file line function errno msg]
            \<and> msg = takeWhile (\<lambda>c. c \<noteq> NUL) (take 1023 (produced r))
            \<and> c_string (load_bytes (mem w') (sp w - 1024) 1024) = Some msg
            \<and> length msg \<le> 1023)
       \<and> alsa_log_stub render file line function errno format arg w
           = alsa_log_stub (\<lambda>_ _. Some (Converted (produced r)))
               file line function errno format arg w
       \<and> (\<exists>w' msg. ffmpeg_log_stub render p level format arg w = Inr w'
            \<and> calls w' = calls w @ [Ffmpeg_log_backend p level msg]
            \<and> msg = takeWhile (\<lambda>c. c \<noteq> NUL) (take 1023 (produced r))
            \<and> c_string (load_bytes (mem w') (sp w - 1024) 1024) = Some msg
            \<and> length msg \<le> 1023)
       \<and> ffmpeg_log_stub render p level format arg w
           = ffmpeg_log_stub (\<lambda>_ _. Some (Converted (produced r))) p level format arg w"
  using assms
  by (simp add: alsa_log_stub_defined [where r = r] ffmpeg_log_stub_defined [where r = r]
      alsa_log_stub_defined [where r = "Converted (produced r)"]
      ffmpeg_log_stub_defined [where r = "Converted (produced r)"]
      c_string_buf length_c_message)

text \<open>
  The theorem at \<^verbatim>\<open>%ls\<close> with a wide character that no encoding holds: the conversion fails
  after six characters, \<^verbatim>\<open>vsnprintf\<close> returns a negative value, and both adapters pass the
  six characters on.
\<close>

theorem no_error_reported_witness:
  "printf_render ''frame %ls'' [Wstr_arg [0xFFFFFFFF]] = Some (Failed ''frame '')
   \<and> map_option (fst \<circ> snd)
        (vsnprintf printf_render (\<lambda>_. CHR ''?'') 0x1000 1024 ''frame %ls'' [Wstr_arg [0xFFFFFFFF]])
       = Some (- 1)
   \<and> (\<exists>w'. alsa_log_stub printf_render 1 2 3 4 ''frame %ls'' [Wstr_arg [0xFFFFFFFF]]
              \<lparr>mem = (\<lambda>_. CHR ''?''), sp = 0x7FFC00000000, calls = []\<rparr> = Inr w'
         \<and> calls w' = [Alsa_log_backend 1 2 3 4 ''frame '']
         \<and> c_string (load_bytes (mem w') (0x7FFC00000000 - 1024) 1024) = Some ''frame '')
   \<and> alsa_log_stub printf_render 1 2 3 4 ''frame %ls'' [Wstr_arg [0xFFFFFFFF]]
          \<lparr>mem = (\<lambda>_. CHR ''?''), sp = 0x7FFC00000000, calls = []\<rparr>
        = alsa_log_stub (\<lambda>_ _. Some (Converted ''frame '')) 1 2 3 4 ''frame %ls''
            [Wstr_arg [0xFFFFFFFF]]
            \<lparr>mem = (\<lambda>_. CHR ''?''), sp = 0x7FFC00000000, calls = []\<rparr>
   \<and> (\<exists>w'. ffmpeg_log_stub printf_render 5 6 ''frame %ls'' [Wstr_arg [0xFFFFFFFF]]
              \<lparr>mem = (\<lambda>_. CHR ''?''), sp = 0x7FFC00000000, calls = []\<rparr> = Inr w'
         \<and> calls w' = [Ffmpeg_log_backend 5 6 ''frame '']
         \<and> c_string (load_bytes (mem w') (0x7FFC00000000 - 1024) 1024) = Some ''frame '')
   \<and> ffmpeg_log_stub printf_render 5 6 ''frame %ls'' [Wstr_arg [0xFFFFFFFF]]
          \<lparr>mem = (\<lambda>_. CHR ''?''), sp = 0x7FFC00000000, calls = []\<rparr>
        = ffmpeg_log_stub (\<lambda>_ _. Some (Converted ''frame '')) 5 6 ''frame %ls''
            [Wstr_arg [0xFFFFFFFF]]
            \<lparr>mem = (\<lambda>_. CHR ''?''), sp = 0x7FFC00000000, calls = []\<rparr>"
proof -
  let ?W = "\<lparr>mem = (\<lambda>_. CHR ''?''), sp = 0x7FFC00000000, calls = []\<rparr>"
  have h: "printf_render ''frame %ls'' [Wstr_arg [0xFFFFFFFF]] = Some (Failed ''frame '')"
    by (simp add: printf_render_def NUL_def)
  have st: "map_option (fst \<circ> snd)
        (vsnprintf printf_render (\<lambda>_. CHR ''?'') 0x1000 1024 ''frame %ls'' [Wstr_arg [0xFFFFFFFF]])
       = Some (- 1)"
    using h by (simp add: vsnprintf_def)
  have msg: "takeWhile (\<lambda>c. c \<noteq> NUL) (take 1023 (produced (Failed ''frame ''))) = ''frame ''"
    by (simp add: NUL_def)
  note inst = no_error_reported [of printf_render "''frame %ls''" "[Wstr_arg [0xFFFFFFFF]]"
      "Failed ''frame ''" 1 2 3 4 ?W 5 6, OF h]
  from inst [THEN conjunct1] msg
  have a: "\<exists>w'. alsa_log_stub printf_render 1 2 3 4 ''frame %ls'' [Wstr_arg [0xFFFFFFFF]] ?W = Inr w'
         \<and> calls w' = [Alsa_log_backend 1 2 3 4 ''frame '']
         \<and> c_string (load_bytes (mem w') (0x7FFC00000000 - 1024) 1024) = Some ''frame ''"
    by auto
  from inst [THEN conjunct2, THEN conjunct1]
  have b: "alsa_log_stub printf_render 1 2 3 4 ''frame %ls'' [Wstr_arg [0xFFFFFFFF]] ?W
        = alsa_log_stub (\<lambda>_ _. Some (Converted ''frame '')) 1 2 3 4 ''frame %ls''
            [Wstr_arg [0xFFFFFFFF]] ?W"
    by simp
  from inst [THEN conjunct2, THEN conjunct2, THEN conjunct1] msg
  have c: "\<exists>w'. ffmpeg_log_stub printf_render 5 6 ''frame %ls'' [Wstr_arg [0xFFFFFFFF]] ?W = Inr w'
         \<and> calls w' = [Ffmpeg_log_backend 5 6 ''frame '']
         \<and> c_string (load_bytes (mem w') (0x7FFC00000000 - 1024) 1024) = Some ''frame ''"
    by auto
  from inst [THEN conjunct2, THEN conjunct2, THEN conjunct2]
  have d: "ffmpeg_log_stub printf_render 5 6 ''frame %ls'' [Wstr_arg [0xFFFFFFFF]] ?W
        = ffmpeg_log_stub (\<lambda>_ _. Some (Converted ''frame '')) 5 6 ''frame %ls''
            [Wstr_arg [0xFFFFFFFF]] ?W"
    by simp
  from h st a b c d show ?thesis
    by (intro conjI)
qed






text \<open>
  C10. When the output is longer than 1023 characters each adapter still returns, having
  called its backend once with the first 1023 characters; and the whole call has the same
  result as a call whose formatting produces exactly those 1023 characters, untruncated:
  truncation has no branch of its own.
\<close>

theorem truncation_same_path:
  assumes "render format arg = Some r" and "1023 < length (produced r)"
  shows "(\<exists>w'. alsa_log_stub render file line function errno format arg w = Inr w'
            \<and> calls w' = calls w @ [Alsa_log_backend file line function errno
                                      (takeWhile (\<lambda>c. c \<noteq> NUL) (take 1023 (produced r)))])
       \<and> alsa_log_stub render file line function errno format arg w
           = alsa_log_stub (\<lambda>_ _. Some (Converted (take 1023 (produced r))))
               file line function errno format arg w
       \<and> (\<exists>w'. ffmpeg_log_stub render p level format arg w = Inr w'
            \<and> calls w' = calls w @ [Ffmpeg_log_backend p level
                                      (takeWhile (\<lambda>c. c \<noteq> NUL) (take 1023 (produced r)))])
       \<and> ffmpeg_log_stub render p level format arg w
           = ffmpeg_log_stub (\<lambda>_ _. Some (Converted (take 1023 (produced r))))
               p level format arg w"
proof -
  have "bounded_store (mem w) (sp w - 1024) 1024 (take (1024 - 1) (produced r))
          = bounded_store (mem w) (sp w - 1024) 1024 (produced r)"
    by (rule bounded_store_take) simp
  then have "bounded_store (mem w) (sp w - 1024) 1024 (take 1023 (produced r))
          = bounded_store (mem w) (sp w - 1024) 1024 (produced r)"
    by simp
  with assms(1) show ?thesis
    by (simp add: alsa_log_stub_defined [where r = r] ffmpeg_log_stub_defined [where r = r]
      alsa_log_stub_defined [where r = "Converted (take 1023 (produced r))"]
      ffmpeg_log_stub_defined [where r = "Converted (take 1023 (produced r))"])
qed

text \<open>The theorem at a literal of 1500 characters.\<close>

theorem truncation_same_path_witness:
  "printf_render (replicate 1500 CHR ''z'') [] = Some (Converted (replicate 1500 CHR ''z''))
   \<and> 1023 < length (produced (Converted (replicate 1500 CHR ''z'')))
   \<and> (\<exists>w'. alsa_log_stub printf_render 1 2 3 4 (replicate 1500 CHR ''z'') []
              \<lparr>mem = (\<lambda>_. CHR ''?''), sp = 0x7FFC00000000, calls = []\<rparr> = Inr w'
         \<and> calls w' = [Alsa_log_backend 1 2 3 4 (replicate 1023 CHR ''z'')])
   \<and> alsa_log_stub printf_render 1 2 3 4 (replicate 1500 CHR ''z'') []
          \<lparr>mem = (\<lambda>_. CHR ''?''), sp = 0x7FFC00000000, calls = []\<rparr>
        = alsa_log_stub (\<lambda>_ _. Some (Converted (replicate 1023 CHR ''z''))) 1 2 3 4
            (replicate 1500 CHR ''z'') []
            \<lparr>mem = (\<lambda>_. CHR ''?''), sp = 0x7FFC00000000, calls = []\<rparr>
   \<and> (\<exists>w'. ffmpeg_log_stub printf_render 5 6 (replicate 1500 CHR ''z'') []
              \<lparr>mem = (\<lambda>_. CHR ''?''), sp = 0x7FFC00000000, calls = []\<rparr> = Inr w'
         \<and> calls w' = [Ffmpeg_log_backend 5 6 (replicate 1023 CHR ''z'')])
   \<and> ffmpeg_log_stub printf_render 5 6 (replicate 1500 CHR ''z'') []
          \<lparr>mem = (\<lambda>_. CHR ''?''), sp = 0x7FFC00000000, calls = []\<rparr>
        = ffmpeg_log_stub (\<lambda>_ _. Some (Converted (replicate 1023 CHR ''z''))) 5 6
            (replicate 1500 CHR ''z'') []
            \<lparr>mem = (\<lambda>_. CHR ''?''), sp = 0x7FFC00000000, calls = []\<rparr>"
proof -
  let ?W = "\<lparr>mem = (\<lambda>_. CHR ''?''), sp = 0x7FFC00000000, calls = []\<rparr>"
  have h1: "printf_render (replicate 1500 CHR ''z'') [] = Some (Converted (replicate 1500 CHR ''z''))"
    by (rule printf_render_literal) (simp_all add: NUL_def)
  have h2: "1023 < length (produced (Converted (replicate 1500 CHR ''z'')))"
    by simp
  note inst = truncation_same_path [of printf_render "replicate 1500 CHR ''z''" "[]"
      "Converted (replicate 1500 CHR ''z'')" 1 2 3 4 ?W 5 6, OF h1 h2]
  from inst [THEN conjunct1]
  have a: "\<exists>w'. alsa_log_stub printf_render 1 2 3 4 (replicate 1500 CHR ''z'') [] ?W = Inr w'
         \<and> calls w' = [Alsa_log_backend 1 2 3 4 (replicate 1023 CHR ''z'')]"
    by (simp add: NUL_def)
  from inst [THEN conjunct2, THEN conjunct1]
  have b: "alsa_log_stub printf_render 1 2 3 4 (replicate 1500 CHR ''z'') [] ?W
        = alsa_log_stub (\<lambda>_ _. Some (Converted (replicate 1023 CHR ''z''))) 1 2 3 4
            (replicate 1500 CHR ''z'') [] ?W"
    by simp
  from inst [THEN conjunct2, THEN conjunct2, THEN conjunct1]
  have c: "\<exists>w'. ffmpeg_log_stub printf_render 5 6 (replicate 1500 CHR ''z'') [] ?W = Inr w'
         \<and> calls w' = [Ffmpeg_log_backend 5 6 (replicate 1023 CHR ''z'')]"
    by (simp add: NUL_def)
  from inst [THEN conjunct2, THEN conjunct2, THEN conjunct2]
  have d: "ffmpeg_log_stub printf_render 5 6 (replicate 1500 CHR ''z'') [] ?W
        = ffmpeg_log_stub (\<lambda>_ _. Some (Converted (replicate 1023 CHR ''z''))) 5 6
            (replicate 1500 CHR ''z'') [] ?W"
    by simp
  from h1 h2 a b c d show ?thesis
    by (intro conjI)
qed

end
